theory Spec2Isabelle
  imports Main "HOL-Library.Sublist" "HOL-Library.AList"
begin

section \<open>JavaScript values\<close>

text \<open>
  The helper module \<^verbatim>\<open>src/utils/prismaClient.ts\<close> passes filters, payloads and
  projections through to the client untouched; the only things it looks at are whether a
  value is truthy, whether it is an array, and whether it is \<^verbatim>\<open>undefined\<close>. Values
  are therefore modelled as JSON-like trees. A number is a double; the ones represented
  are the integer-valued doubles (page numbers, offsets, limits), each by the integer it
  denotes. \<^verbatim>\<open>NaN\<close>, the infinities and fractions are not represented. An object is
  the list of its own properties in insertion order.
\<close>

datatype jsval =
    JUndefined
  | JNull
  | JBool bool
  | JNum int
  | JStr string
  | JArr "jsval list"
  | JObj "(string \<times> jsval) list"

type_synonym jsobj = "(string \<times> jsval) list"

text \<open>ToBoolean: what \<^verbatim>\<open>&&\<close>, \<^verbatim>\<open>||\<close>, \<^verbatim>\<open>!\<close> and \<^verbatim>\<open>?:\<close> test.\<close>

fun truthy :: "jsval \<Rightarrow> bool" where
  "truthy JUndefined = False"
| "truthy JNull = False"
| "truthy (JBool b) = b"
| "truthy (JNum n) = (n \<noteq> 0)"
| "truthy (JStr s) = (s \<noteq> [])"
| "truthy (JArr xs) = True"
| "truthy (JObj ps) = True"

text \<open>\<^verbatim>\<open>a || b\<close> on values.\<close>

definition js_or :: "jsval \<Rightarrow> jsval \<Rightarrow> jsval" where
  "js_or a b = (if truthy a then a else b)"

text \<open>\<^verbatim>\<open>Array.isArray\<close>.\<close>

fun isArray :: "jsval \<Rightarrow> bool" where
  "isArray (JArr xs) = True"
| "isArray v = False"

text \<open>
  The spread \<^verbatim>\<open>...(v && { key: v })\<close> inside an object literal: when \<^verbatim>\<open>v\<close> is falsy
  the operand of the spread is a falsy primitive, which contributes no property; when it
  is truthy the literal gains the one property.
\<close>

definition spread_truthy :: "string \<Rightarrow> jsval \<Rightarrow> jsobj" where
  "spread_truthy key v = (if truthy v then [(key, v)] else [])"

text \<open>
  An optional \<^verbatim>\<open>number\<close> field or variable is \<open>None\<close> when it is \<^verbatim>\<open>undefined\<close>.
  \<open>num_truthy\<close> is ToBoolean on it, \<open>spread_defined\<close> the spread
  \<^verbatim>\<open>...(n !== undefined && { key: n })\<close>.
\<close>

definition num_truthy :: "int option \<Rightarrow> bool" where
  "num_truthy n = (case n of None \<Rightarrow> False | Some k \<Rightarrow> k \<noteq> 0)"

definition spread_defined :: "string \<Rightarrow> int option \<Rightarrow> jsobj" where
  "spread_defined key n = (case n of None \<Rightarrow> [] | Some k \<Rightarrow> [(key, JNum k)])"

text \<open>
  Arithmetic on numbers is arithmetic on doubles: the result of an operation is the exact
  result rounded to the nearest double, ties to the one with the even significand. A
  double has 53 significant bits, so an integer of bit length \<open>l > 53\<close> is rounded to a
  multiple of \<open>2 ^ (l - 53)\<close>, and an integer of magnitude up to \<open>2 ^ 53\<close> is a double
  as it stands. Results beyond the range of the doubles (magnitude \<open>2 ^ 1024\<close> and
  above) are not represented.
\<close>

fun bit_length :: "nat \<Rightarrow> nat" where
  "bit_length n = (if n = 0 then 0 else Suc (bit_length (n div 2)))"

declare bit_length.simps [simp del]

definition to_double :: "int \<Rightarrow> int" where
  "to_double x =
     (let n = nat \<bar>x\<bar>;
          ulp = 2 ^ (bit_length n - 53);
          q = n div ulp;
          r = n mod ulp;
          q' = (if ulp < 2 * r \<or> (2 * r = ulp \<and> odd q) then Suc q else q)
      in sgn x * int (q' * ulp))"

text \<open>\<^verbatim>\<open>a - b\<close> and \<^verbatim>\<open>a * b\<close> on numbers.\<close>

definition js_minus :: "int \<Rightarrow> int \<Rightarrow> int" where
  "js_minus a b = to_double (a - b)"

definition js_times :: "int \<Rightarrow> int \<Rightarrow> int" where
  "js_times a b = to_double (a * b)"

text \<open>\<^verbatim>\<open>Array.prototype.join\<close> on strings.\<close>

fun join :: "string \<Rightarrow> string list \<Rightarrow> string" where
  "join sep [] = []"
| "join sep [x] = x"
| "join sep (x # y # ys) = x @ sep @ join sep (y # ys)"

text \<open>
  \<^verbatim>\<open>String.prototype.toLowerCase\<close> on the ASCII letters. The module applies it only to
  a name that has passed the allow-list, and those names are ASCII.
\<close>

definition lower_char :: "char \<Rightarrow> char" where
  "lower_char c =
     (case map_of (zip ''ABCDEFGHIJKLMNOPQRSTUVWXYZ'' ''abcdefghijklmnopqrstuvwxyz'') c of
        None \<Rightarrow> c
      | Some l \<Rightarrow> l)"

definition toLowerCase :: "string \<Rightarrow> string" where
  "toLowerCase s = map lower_char s"

section \<open>The singleton client and its lifecycle\<close>

text \<open>
  A \<^verbatim>\<open>PrismaClient\<close> object is identified by a reference; \<open>fresh\<close> is the next
  unused one. What the module does to client objects is recorded in \<open>trace\<close>, oldest
  event first. \<open>prismaInstance\<close> is the module-level \<^verbatim>\<open>let\<close> variable, \<open>prisma\<close>
  the module-level \<^verbatim>\<open>const\<close> bound once while the module loads.
\<close>

type_synonym client_ref = nat

text \<open>
  Exceptions and rejections. \<open>Error\<close> is the \<^verbatim>\<open>Error\<close> that \<^verbatim>\<open>getDelegate\<close>
  throws, with its message; \<open>TypeError\<close> is JavaScript's own when a method is read
  from \<^verbatim>\<open>undefined\<close>; \<open>NotFound\<close> is the client's when a single-record write finds
  no record; \<open>ClientError\<close> is any other error the client rejects with.
\<close>

datatype failure = Error string | TypeError string | NotFound | ClientError string

datatype LogLevel = LogInfo | LogQuery | LogWarn | LogError

datatype ErrorFormat = Pretty | Colorless | Minimal

record PrismaConfig =
  log :: "LogLevel list option"
  errorFormat :: "ErrorFormat option"

text \<open>
  The events of the trace: \<^verbatim>\<open>new PrismaClient({ log, errorFormat })\<close> returning a
  client, and \<^verbatim>\<open>$disconnect()\<close> being called on a client.
\<close>

datatype event =
    Created client_ref "LogLevel list" ErrorFormat
  | Disconnected client_ref

record globals =
  prismaInstance :: "client_ref option"
  fresh :: client_ref
  trace :: "event list"

record module = globals +
  prisma :: client_ref

text \<open>
  \<^verbatim>\<open>getPrismaClient(config?)\<close>: \<^verbatim>\<open>config?.log || ['error', 'warn']\<close> and
  \<^verbatim>\<open>config?.errorFormat || 'colorless'\<close>; an array and a non-empty string are
  truthy, so the default is taken exactly when the field (or the whole config) is absent.
\<close>

definition getPrismaClient ::
  "PrismaConfig option \<Rightarrow> 'a globals_scheme \<Rightarrow> client_ref \<times> 'a globals_scheme" where
  "getPrismaClient config g =
     (case prismaInstance g of
        Some c \<Rightarrow> (c, g)
      | None \<Rightarrow>
          (let l = (case Option.bind config log of None \<Rightarrow> [LogError, LogWarn] | Some ls \<Rightarrow> ls);
               f = (case Option.bind config errorFormat of None \<Rightarrow> Colorless | Some ef \<Rightarrow> ef);
               c = fresh g
           in (c, g\<lparr>prismaInstance := Some c, fresh := Suc c, trace := trace g @ [Created c l f]\<rparr>)))"

text \<open>
  \<^verbatim>\<open>disconnectPrismaClient\<close> is an async function with one \<^verbatim>\<open>await\<close>, so a call
  of it runs in two steps, and other code can run between them. The first step tests the
  singleton variable; when it holds a client, the step calls \<^verbatim>\<open>$disconnect()\<close> on
  that client (recorded in the trace) and the call is suspended on the promise, which the
  step returns as the client awaited; when the variable is \<^verbatim>\<open>null\<close> the call is
  complete.
\<close>

definition disconnect_start :: "'a globals_scheme \<Rightarrow> client_ref option \<times> 'a globals_scheme" where
  "disconnect_start g =
     (case prismaInstance g of
        Some c \<Rightarrow> (Some c, g\<lparr>trace := trace g @ [Disconnected c]\<rparr>)
      | None \<Rightarrow> (None, g))"

text \<open>
  The second step runs when the promise of \<^verbatim>\<open>$disconnect()\<close> settles. When it
  resolves (\<open>None\<close>), the call sets the singleton variable to \<^verbatim>\<open>null\<close> and
  completes. When it rejects with an error, the \<^verbatim>\<open>await\<close> throws it: the assignment
  is not reached and the call rejects with that error.
\<close>

definition disconnect_resume ::
  "failure option \<Rightarrow> 'a globals_scheme \<Rightarrow> failure option \<times> 'a globals_scheme" where
  "disconnect_resume settled g =
     (case settled of
        None \<Rightarrow> (None, g\<lparr>prismaInstance := None\<rparr>)
      | Some e \<Rightarrow> (Some e, g))"

text \<open>
  A call of \<^verbatim>\<open>disconnectPrismaClient()\<close> that nothing interleaves with: both steps,
  one after the other, given how \<^verbatim>\<open>$disconnect()\<close> settles. The result is the error
  the call rejects with, if any.
\<close>

definition disconnectPrismaClient ::
  "failure option \<Rightarrow> 'a globals_scheme \<Rightarrow> failure option \<times> 'a globals_scheme" where
  "disconnectPrismaClient settled g =
     (case disconnect_start g of
        (None, g') \<Rightarrow> (None, g')
      | (Some c, g') \<Rightarrow> disconnect_resume settled g')"

text \<open>
  Loading the module: \<^verbatim>\<open>let prismaInstance = null\<close>, then
  \<^verbatim>\<open>const prisma = getPrismaClient()\<close>.
\<close>

definition module_start :: globals where
  "module_start = \<lparr>prismaInstance = None, fresh = 0, trace = []\<rparr>"

definition load_module :: module where
  "load_module =
     (let (c, g) = getPrismaClient None module_start
      in \<lparr>prismaInstance = prismaInstance g, fresh = fresh g, trace = trace g, prisma = c\<rparr>)"

section \<open>Table-name validation\<close>

definition VALID_MODELS :: "string list" where
  "VALID_MODELS = [''User'', ''Folder'', ''File'', ''FileVersion'', ''Share'']"

definition isValidModel :: "string \<Rightarrow> bool" where
  "isValidModel tableName = (tableName \<in> set VALID_MODELS)"

definition invalid_model_message :: "string \<Rightarrow> string" where
  "invalid_model_message tableName =
     ''Invalid model name: '' @ tableName @ ''. Valid models are: '' @ join '', '' VALID_MODELS"

text \<open>
  Modelled from the spec: the property names of the generated client object, which is not
  under src/. The client has one delegate per entity table of the specification (User,
  Folder, File, FileVersion, Share); the mapper names the property of a delegate by the
  model name with its first letter in lower case, as \<^verbatim>\<open>tx.user\<close> in the example of
  \<^verbatim>\<open>executeTransaction\<close>. Property lookup is case-sensitive.
\<close>

definition client_properties :: "string list" where
  "client_properties = [''user'', ''folder'', ''file'', ''fileVersion'', ''share'']"

text \<open>
  \<^verbatim>\<open>getDelegate\<close> reads the property of \<^verbatim>\<open>prisma\<close> named by the lower-cased
  table name. The value read is denoted by the pair of the client and the property name;
  it is \<^verbatim>\<open>undefined\<close> when the client has no property of that name.
\<close>

datatype delegate = Delegate client_ref string

fun is_undefined :: "delegate \<Rightarrow> bool" where
  "is_undefined (Delegate c key) = (key \<notin> set client_properties)"

definition getDelegate :: "module \<Rightarrow> string \<Rightarrow> failure + delegate" where
  "getDelegate m tableName =
     (if \<not> isValidModel tableName then Inl (Error (invalid_model_message tableName))
      else Inr (Delegate (prisma m) (toLowerCase tableName)))"

section \<open>The helpers\<close>

text \<open>
  Every helper ends in one call on the client and returns that call's promise. The outcome
  of a helper is therefore either the exception it throws before calling anything
  (\<open>Inl\<close>) or the call it makes (\<open>Inr\<close>): a method of a delegate applied to one
  argument object, \<^verbatim>\<open>$queryRawUnsafe\<close> applied to the query and its parameters, or
  \<^verbatim>\<open>$transaction\<close> applied to a callback of type \<open>'cb\<close>. What the call evaluates to
  is the client's part.
\<close>

datatype 'cb call =
    DelegateCall delegate string jsobj
  | QueryRawUnsafe client_ref string "jsval list"
  | Transaction client_ref 'cb

type_synonym 'cb outcome = "failure + 'cb call"

text \<open>
  \<^verbatim>\<open>delegate.method(args)\<close>: reading the method from \<^verbatim>\<open>undefined\<close> throws a
  TypeError inside the helper, and nothing is called; otherwise the method is called.
\<close>

definition call_method :: "delegate \<Rightarrow> string \<Rightarrow> jsobj \<Rightarrow> 'cb outcome" where
  "call_method d method args =
     (if is_undefined d
      then Inl (TypeError (''Cannot read properties of undefined (reading '' @ [CHR 0x27] @ method @ [CHR 0x27] @ '')''))
      else Inr (DelegateCall d method args))"

text \<open>
  \<^verbatim>\<open>insertRecord(tableName, data, skipDuplicates = true)\<close>; an omitted third argument
  is \<open>None\<close>.
\<close>

definition insertRecord :: "module \<Rightarrow> string \<Rightarrow> jsval \<Rightarrow> bool option \<Rightarrow> 'cb outcome" where
  "insertRecord m tableName data skipDuplicates =
     (let skipDuplicates' = (case skipDuplicates of None \<Rightarrow> True | Some b \<Rightarrow> b) in
      case getDelegate m tableName of
        Inl e \<Rightarrow> Inl e
      | Inr delegate \<Rightarrow>
          if isArray data
          then call_method delegate ''createMany''
                 [(''data'', data), (''skipDuplicates'', JBool skipDuplicates')]
          else call_method delegate ''create'' [(''data'', data)])"

text \<open>\<^verbatim>\<open>findRecord(tableName, query, select?)\<close>; an omitted \<^verbatim>\<open>select\<close> is \<open>JUndefined\<close>.\<close>

definition findRecord :: "module \<Rightarrow> string \<Rightarrow> jsval \<Rightarrow> jsval \<Rightarrow> 'cb outcome" where
  "findRecord m tableName query select =
     (case getDelegate m tableName of
        Inl e \<Rightarrow> Inl e
      | Inr delegate \<Rightarrow>
          call_method delegate ''findUnique''
            ([(''where'', query)] @ spread_truthy ''select'' select))"

text \<open>
  \<^verbatim>\<open>FindManyOptions\<close>: every field is optional. An absent \<^verbatim>\<open>where\<close>,
  \<^verbatim>\<open>select\<close> or \<^verbatim>\<open>orderBy\<close> is \<open>JUndefined\<close>, an absent number is \<open>None\<close>.
  The fields carry the suffix \<open>_opt\<close> because \<open>where\<close> and \<open>take\<close> are taken.
\<close>

record FindManyOptions =
  where_opt :: jsval
  select_opt :: jsval
  orderBy_opt :: jsval
  skip_opt :: "int option"
  take_opt :: "int option"
  page_opt :: "int option"
  perPage_opt :: "int option"

text \<open>The empty object of \<^verbatim>\<open>options || {}\<close>.\<close>

definition no_options :: FindManyOptions where
  "no_options =
     \<lparr>where_opt = JUndefined, select_opt = JUndefined, orderBy_opt = JUndefined,
      skip_opt = None, take_opt = None, page_opt = None, perPage_opt = None\<rparr>"

text \<open>
  \<^verbatim>\<open>page && perPage ? (page - 1) * perPage : skip\<close>: the product is taken when both
  numbers are present and non-zero, the raw \<^verbatim>\<open>skip\<close> in every other case.
\<close>

definition calculatedSkip :: "FindManyOptions \<Rightarrow> int option" where
  "calculatedSkip opts =
     (case (page_opt opts, perPage_opt opts) of
        (Some page, Some perPage) \<Rightarrow>
          if page \<noteq> 0 \<and> perPage \<noteq> 0 then Some (js_times (js_minus page 1) perPage)
          else skip_opt opts
      | _ \<Rightarrow> skip_opt opts)"

text \<open>\<^verbatim>\<open>perPage || take\<close>.\<close>

definition calculatedTake :: "FindManyOptions \<Rightarrow> int option" where
  "calculatedTake opts =
     (if num_truthy (perPage_opt opts) then perPage_opt opts else take_opt opts)"

definition findManyRecords :: "module \<Rightarrow> string \<Rightarrow> FindManyOptions option \<Rightarrow> 'cb outcome" where
  "findManyRecords m tableName options =
     (case getDelegate m tableName of
        Inl e \<Rightarrow> Inl e
      | Inr delegate \<Rightarrow>
          (let opts = (case options of None \<Rightarrow> no_options | Some given \<Rightarrow> given) in
           call_method delegate ''findMany''
             (spread_truthy ''where'' (where_opt opts) @
              spread_truthy ''select'' (select_opt opts) @
              spread_truthy ''orderBy'' (orderBy_opt opts) @
              spread_defined ''skip'' (calculatedSkip opts) @
              spread_defined ''take'' (calculatedTake opts))))"

definition updateRecord :: "module \<Rightarrow> string \<Rightarrow> jsval \<Rightarrow> jsval \<Rightarrow> 'cb outcome" where
  "updateRecord m tableName query data =
     (case getDelegate m tableName of
        Inl e \<Rightarrow> Inl e
      | Inr delegate \<Rightarrow>
          call_method delegate ''update'' [(''where'', query), (''data'', data)])"

text \<open>
  \<^verbatim>\<open>upsertRecord(tableName, query, dataUpdate, dataCreate?)\<close>; an omitted
  \<^verbatim>\<open>dataCreate\<close> is \<open>JUndefined\<close>.
\<close>

definition upsertRecord :: "module \<Rightarrow> string \<Rightarrow> jsval \<Rightarrow> jsval \<Rightarrow> jsval \<Rightarrow> 'cb outcome" where
  "upsertRecord m tableName query dataUpdate dataCreate =
     (case getDelegate m tableName of
        Inl e \<Rightarrow> Inl e
      | Inr delegate \<Rightarrow>
          call_method delegate ''upsert''
            [(''where'', query), (''update'', dataUpdate),
             (''create'', js_or dataCreate dataUpdate)])"

definition deleteRecord :: "module \<Rightarrow> string \<Rightarrow> jsval \<Rightarrow> 'cb outcome" where
  "deleteRecord m tableName query =
     (case getDelegate m tableName of
        Inl e \<Rightarrow> Inl e
      | Inr delegate \<Rightarrow> call_method delegate ''delete'' [(''where'', query)])"

text \<open>\<^verbatim>\<open>countRecords(tableName, where?)\<close>.\<close>

definition countRecords :: "module \<Rightarrow> string \<Rightarrow> jsval \<Rightarrow> 'cb outcome" where
  "countRecords m tableName where_arg =
     (case getDelegate m tableName of
        Inl e \<Rightarrow> Inl e
      | Inr delegate \<Rightarrow> call_method delegate ''count'' (spread_truthy ''where'' where_arg))"

text \<open>
  \<^verbatim>\<open>findFirstRecord\<close> takes the options type of \<^verbatim>\<open>findManyRecords\<close> and
  destructures \<^verbatim>\<open>where\<close>, \<^verbatim>\<open>select\<close> and \<^verbatim>\<open>orderBy\<close> only.
\<close>

definition findFirstRecord :: "module \<Rightarrow> string \<Rightarrow> FindManyOptions option \<Rightarrow> 'cb outcome" where
  "findFirstRecord m tableName options =
     (case getDelegate m tableName of
        Inl e \<Rightarrow> Inl e
      | Inr delegate \<Rightarrow>
          (let opts = (case options of None \<Rightarrow> no_options | Some given \<Rightarrow> given) in
           call_method delegate ''findFirst''
             (spread_truthy ''where'' (where_opt opts) @
              spread_truthy ''select'' (select_opt opts) @
              spread_truthy ''orderBy'' (orderBy_opt opts))))"

definition updateManyRecords :: "module \<Rightarrow> string \<Rightarrow> jsval \<Rightarrow> jsval \<Rightarrow> 'cb outcome" where
  "updateManyRecords m tableName where_arg data =
     (case getDelegate m tableName of
        Inl e \<Rightarrow> Inl e
      | Inr delegate \<Rightarrow>
          call_method delegate ''updateMany'' [(''where'', where_arg), (''data'', data)])"

definition deleteManyRecords :: "module \<Rightarrow> string \<Rightarrow> jsval \<Rightarrow> 'cb outcome" where
  "deleteManyRecords m tableName where_arg =
     (case getDelegate m tableName of
        Inl e \<Rightarrow> Inl e
      | Inr delegate \<Rightarrow> call_method delegate ''deleteMany'' [(''where'', where_arg)])"

text \<open>
  \<^verbatim>\<open>executeTransaction\<close> and \<^verbatim>\<open>executeRawQuery\<close> call \<^verbatim>\<open>prisma\<close> itself; neither
  goes through \<^verbatim>\<open>getDelegate\<close>.
\<close>

definition executeTransaction :: "module \<Rightarrow> 'cb \<Rightarrow> 'cb outcome" where
  "executeTransaction m callback = Inr (Transaction (prisma m) callback)"

definition executeRawQuery :: "module \<Rightarrow> string \<Rightarrow> jsval list \<Rightarrow> 'cb outcome" where
  "executeRawQuery m query params = Inr (QueryRawUnsafe (prisma m) query params)"

text \<open>
  Handing a helper's outcome to a client: an exception thrown by the helper reaches the
  caller and the client is not entered; otherwise the client answers the call. The client
  is any function from a call and the state of the data store to a result and a new state.
\<close>

definition settle ::
  "('cb call \<Rightarrow> 'db \<Rightarrow> (failure + 'r) \<times> 'db) \<Rightarrow> 'cb outcome \<Rightarrow> 'db \<Rightarrow> (failure + 'r) \<times> 'db" where
  "settle client out db = (case out of Inl e \<Rightarrow> (Inl e, db) | Inr c \<Rightarrow> client c db)"


section \<open>Schedules\<close>

text \<open>
  What can happen to the singleton after the module has loaded, step by step: a call of
  \<^verbatim>\<open>getPrismaClient\<close>, the first step of a call of \<^verbatim>\<open>disconnectPrismaClient\<close>,
  and the second step of a suspended one, with the way \<^verbatim>\<open>$disconnect()\<close> settled.
  The shutdown handlers for \<^verbatim>\<open>beforeExit\<close>, \<^verbatim>\<open>SIGINT\<close> and \<^verbatim>\<open>SIGTERM\<close> are
  such calls of \<^verbatim>\<open>disconnectPrismaClient\<close>, each started when its signal arrives. A
  schedule is run on the module state together with the number of suspended calls; a
  second step with no call suspended does not happen.
\<close>

datatype lifecycle_step =
    GetPrismaClient "PrismaConfig option"
  | DisconnectStart
  | DisconnectResume "failure option"

fun run_step :: "lifecycle_step \<Rightarrow> module \<times> nat \<Rightarrow> module \<times> nat" where
  "run_step (GetPrismaClient config) (m, n) = (snd (getPrismaClient config m), n)"
| "run_step DisconnectStart (m, n) =
     (case disconnect_start m of
        (None, m') \<Rightarrow> (m', n)
      | (Some c, m') \<Rightarrow> (m', Suc n))"
| "run_step (DisconnectResume settled) (m, n) =
     (case n of
        0 \<Rightarrow> (m, n)
      | Suc k \<Rightarrow> (snd (disconnect_resume settled m), k))"

definition run_schedule :: "lifecycle_step list \<Rightarrow> module \<times> nat \<Rightarrow> module \<times> nat" where
  "run_schedule steps s = fold run_step steps s"

section \<open>The client and the data store\<close>

text \<open>
  The object-relational mapper and the database behind it are a dependency of the
  repository and not part of its sources. The definitions of this section follow the
  specification's description of them; each says so.
\<close>

type_synonym row = jsobj

text \<open>
  Modelled from the spec: the data store behind the client, which is not under src/. The
  entities are opaque records held per table; a table is reached through the client
  property of its delegate and is named by it.
\<close>

type_synonym store = "string \<Rightarrow> row list"

text \<open>The properties of an object value; a value that is no object has none.\<close>

fun fields_of :: "jsval \<Rightarrow> jsobj" where
  "fields_of (JObj ps) = ps"
| "fields_of v = []"

text \<open>\<^verbatim>\<open>args.key\<close>: reading a property of the argument object.\<close>

definition arg :: "string \<Rightarrow> jsobj \<Rightarrow> jsval" where
  "arg key args = (case map_of args key of None \<Rightarrow> JUndefined | Some v \<Rightarrow> v)"

text \<open>
  Modelled from the spec: filter evaluation of the client, which is not under src/. A
  unique-key filter names fields and their values; a record matches when it has each of
  them.
\<close>

definition matches :: "jsval \<Rightarrow> row \<Rightarrow> bool" where
  "matches query r = list_all (\<lambda>(k, v). map_of r k = Some v) (fields_of query)"

text \<open>
  Modelled from the spec: partial field updates of the client, which is not under src/.
  The fields given are set, in order; the others keep their values.
\<close>

definition assign :: "row \<Rightarrow> jsobj \<Rightarrow> row" where
  "assign r fs = fold (\<lambda>(k, v). AList.update k v) fs r"

text \<open>
  Modelled from the spec: how the client stores an updated record, which is not under
  src/. The first record that satisfies the filter is replaced; a unique-key filter has no
  second one.
\<close>

fun replace_first :: "(row \<Rightarrow> bool) \<Rightarrow> row \<Rightarrow> row list \<Rightarrow> row list" where
  "replace_first P new [] = []"
| "replace_first P new (r # rs) = (if P r then new # rs else r # replace_first P new rs)"

text \<open>
  Modelled from the spec: the delegate's single-create operation, which is not under
  src/: the record is stored and returned.
\<close>

definition delegate_create :: "jsval \<Rightarrow> row list \<Rightarrow> (failure + jsval) \<times> row list" where
  "delegate_create data rows = (Inr (JObj (fields_of data)), rows @ [fields_of data])"

text \<open>
  Modelled from the spec: the delegate's update-one operation, which is not under src/:
  ``updated record; fails if no record matches the filter'', a not-found error that leaves
  the stored data unchanged.
\<close>

definition delegate_update ::
  "jsval \<Rightarrow> jsval \<Rightarrow> row list \<Rightarrow> (failure + jsval) \<times> row list" where
  "delegate_update query data rows =
     (case find (matches query) rows of
        None \<Rightarrow> (Inl NotFound, rows)
      | Some r \<Rightarrow>
          (let r' = assign r (fields_of data)
           in (Inr (JObj r'), replace_first (matches query) r' rows)))"

text \<open>
  Modelled from the spec: the delegate's upsert operation, which is not under src/:
  ``resulting record; create path used only when filter matches nothing''. The create
  path stores the create payload, the other path is the update of the matching record.
\<close>

definition delegate_upsert ::
  "jsval \<Rightarrow> jsval \<Rightarrow> jsval \<Rightarrow> row list \<Rightarrow> (failure + jsval) \<times> row list" where
  "delegate_upsert query update_payload create_payload rows =
     (case find (matches query) rows of
        None \<Rightarrow> delegate_create create_payload rows
      | Some r \<Rightarrow> delegate_update query update_payload rows)"

text \<open>
  Modelled from the spec: the rest of the client, which is not under src/. What the
  specification leaves open is a parameter: the delegate operations other than create,
  update and upsert, and the raw-query primitive.
\<close>

record unspecified =
  other_method :: "string \<Rightarrow> jsobj \<Rightarrow> row list \<Rightarrow> (failure + jsval) \<times> row list"
  raw_query :: "string \<Rightarrow> jsval list \<Rightarrow> store \<Rightarrow> (failure + jsval) \<times> store"

text \<open>
  Modelled from the spec: the operation surface of a delegate, which is not under src/;
  each method takes its payloads from the properties of the one argument object.
\<close>

definition delegate_method ::
  "unspecified \<Rightarrow> string \<Rightarrow> jsobj \<Rightarrow> row list \<Rightarrow> (failure + jsval) \<times> row list" where
  "delegate_method ext method args rows =
     (if method = ''create'' then delegate_create (arg ''data'' args) rows
      else if method = ''update'' then
        delegate_update (arg ''where'' args) (arg ''data'' args) rows
      else if method = ''upsert'' then
        delegate_upsert (arg ''where'' args) (arg ''update'' args) (arg ''create'' args) rows
      else other_method ext method args rows)"

text \<open>
  Modelled from the spec: evaluating \<^verbatim>\<open>handle[key].method(args)\<close> on a client or
  transaction handle, which is not under src/. Reading a method from a property the
  handle does not have is JavaScript's TypeError, raised before anything is sent;
  otherwise the delegate works on its table.
\<close>

definition on_delegate ::
  "unspecified \<Rightarrow> string \<Rightarrow> string \<Rightarrow> jsobj \<Rightarrow> store \<Rightarrow> (failure + jsval) \<times> store" where
  "on_delegate ext key method args db =
     (if key \<notin> set client_properties
      then (Inl (TypeError (''Cannot read properties of undefined (reading '' @ [CHR 0x27] @ method @ [CHR 0x27] @ '')'')), db)
      else
        (case delegate_method ext method args (db key) of
           (res, rows') \<Rightarrow> (res, db(key := rows'))))"

text \<open>
  Modelled from the spec: a unit of work, which the callers of the module write and which
  is not under src/: ``a sequence of operations against the same underlying handle''. The
  operations are calls on the delegates of the transaction handle, each awaited; the first
  that fails rejects the unit with its error, and a unit that gets through resolves to the
  results.
\<close>

datatype tx_op = TxOp string string jsobj

type_synonym unit_of_work = "store \<Rightarrow> (failure + jsval) \<times> store"

fun in_sequence :: "unspecified \<Rightarrow> tx_op list \<Rightarrow> store \<Rightarrow> (failure + jsval list) \<times> store" where
  "in_sequence ext [] db = (Inr [], db)"
| "in_sequence ext (TxOp key method args # ops) db =
     (case on_delegate ext key method args db of
        (Inl e, db') \<Rightarrow> (Inl e, db')
      | (Inr v, db') \<Rightarrow>
          (case in_sequence ext ops db' of
             (Inl e, db'') \<Rightarrow> (Inl e, db'')
           | (Inr vs, db'') \<Rightarrow> (Inr (v # vs), db'')))"

text \<open>
  Modelled from the spec: the callback of such a unit of work, which is not under src/; it
  resolves to the array of the results.
\<close>

definition sequence_unit :: "unspecified \<Rightarrow> tx_op list \<Rightarrow> unit_of_work" where
  "sequence_unit ext ops db =
     (case in_sequence ext ops db of
        (Inl e, db') \<Rightarrow> (Inl e, db')
      | (Inr vs, db') \<Rightarrow> (Inr (JArr vs), db'))"

text \<open>
  Modelled from the spec: the client's transaction primitive, which is not under src/:
  ``all contained operations commit or roll back atomically; any failure inside aborts the
  whole unit'' and ``surfaces that operation's error to the caller''.
\<close>

definition client_transaction :: "unit_of_work \<Rightarrow> store \<Rightarrow> (failure + jsval) \<times> store" where
  "client_transaction callback db =
     (case callback db of
        (Inl e, db') \<Rightarrow> (Inl e, db)
      | (Inr r, db') \<Rightarrow> (Inr r, db'))"

text \<open>
  Modelled from the spec: the client as a whole, which is not under src/, answering the
  calls the helpers make. All client objects of the process work on the one database.
\<close>

fun orm :: "unspecified \<Rightarrow> unit_of_work call \<Rightarrow> store \<Rightarrow> (failure + jsval) \<times> store" where
  "orm ext (DelegateCall (Delegate c key) method args) db = on_delegate ext key method args db"
| "orm ext (QueryRawUnsafe c query params) db = raw_query ext query params db"
| "orm ext (Transaction c callback) db = client_transaction callback db"

text \<open>
  Two instances for the examples: a client whose unspecified operations answer without
  changing anything, and a store where only the table of \<^verbatim>\<open>user\<close> holds records.
\<close>

definition inert :: unspecified where
  "inert =
     \<lparr>other_method = (\<lambda>method args rows. (Inr JNull, rows)),
      raw_query = (\<lambda>query params db. (Inr (JArr []), db))\<rparr>"

definition users_only :: "row list \<Rightarrow> store" where
  "users_only rows = (\<lambda>key. [])(''user'' := rows)"

section \<open>Arithmetic on numbers\<close>

lemma bit_length_le: "n < 2 ^ k \<Longrightarrow> bit_length n \<le> k"
proof (induction k arbitrary: n)
  case 0
  then show ?case by (simp add: bit_length.simps)
next
  case (Suc k)
  show ?case
  proof (cases "n = 0")
    case True
    then show ?thesis by (simp add: bit_length.simps)
  next
    case False
    from Suc.prems have "n div 2 < 2 ^ k" by simp
    then have "bit_length (n div 2) \<le> k" by (rule Suc.IH)
    with False show ?thesis by (subst bit_length.simps) simp
  qed
qed

lemma to_double_small: "\<bar>x\<bar> < 2 ^ 53 \<Longrightarrow> to_double x = x"
proof -
  assume small: "\<bar>x\<bar> < 2 ^ 53"
  then have "nat \<bar>x\<bar> < 2 ^ 53" by (simp add: nat_less_iff)
  then have "bit_length (nat \<bar>x\<bar>) \<le> 53" by (rule bit_length_le)
  then have "bit_length (nat \<bar>x\<bar>) - 53 = 0" by simp
  then show ?thesis by (simp add: to_double_def Let_def mult_sgn_abs)
qed

lemma bit_length_power: "bit_length (2 ^ k) = Suc k"
proof (induction k)
  case 0
  show ?case by (simp add: bit_length.simps [of "Suc 0"] bit_length.simps [of 0])
next
  case (Suc k)
  then show ?case by (subst bit_length.simps) simp
qed

lemma to_double_boundary: "\<bar>x\<bar> = 2 ^ 53 \<Longrightarrow> to_double x = x"
proof -
  assume b: "\<bar>x\<bar> = 2 ^ 53"
  then have n: "nat \<bar>x\<bar> = 2 ^ 53" by simp
  have "bit_length (nat \<bar>x\<bar>) - 53 = 1" unfolding n bit_length_power by simp
  then have "to_double x = sgn x * int (nat \<bar>x\<bar>)"
    unfolding to_double_def Let_def n by simp
  then show ?thesis by (simp add: mult_sgn_abs)
qed

lemma to_double_exact: "\<bar>x\<bar> \<le> 2 ^ 53 \<Longrightarrow> to_double x = x"
proof (cases "\<bar>x\<bar> < 2 ^ 53")
  case True
  then show ?thesis by (rule to_double_small)
next
  case False
  assume "\<bar>x\<bar> \<le> 2 ^ 53"
  with False have "\<bar>x\<bar> = 2 ^ 53" by simp
  then show ?thesis by (rule to_double_boundary)
qed

lemma bit_length_eq: "2 ^ k \<le> n \<Longrightarrow> n < 2 ^ Suc k \<Longrightarrow> bit_length n = Suc k"
proof (induction k arbitrary: n)
  case 0
  then have "n = 1" by simp
  then show ?case by (simp add: bit_length.simps [of "Suc 0"] bit_length.simps [of 0])
next
  case (Suc k)
  then have "2 ^ k \<le> n div 2" "n div 2 < 2 ^ Suc k" "n \<noteq> 0" by auto
  with Suc.IH show ?case by (subst bit_length.simps) simp
qed

lemma js_minus_one_safe: "\<bar>page\<bar> < 2 ^ 53 \<Longrightarrow> js_minus page 1 = page - 1"
  unfolding js_minus_def by (rule to_double_exact) simp

lemma page_two_of_ten: "js_times (js_minus 2 1) 10 = 10"
  by (simp add: js_minus_one_safe js_times_def to_double_exact)

section \<open>Validation comes first\<close>

lemma sublist_in_right: "sublist xs zs \<Longrightarrow> sublist xs (ys @ zs)"
proof -
  assume "sublist xs zs"
  then obtain ps ss where "zs = ps @ xs @ ss" by (auto simp: sublist_def)
  then have "ys @ zs = (ys @ ps) @ xs @ ss" by simp
  then show ?thesis unfolding sublist_def by blast
qed

lemma join_lists_member: "x \<in> set xs \<Longrightarrow> sublist x (join sep xs)"
proof (induction sep xs rule: join.induct)
  case (1 sep)
  then show ?case by simp
next
  case (2 sep y)
  then show ?case by simp
next
  case (3 sep y z zs)
  show ?case
  proof (cases "x = y")
    case True
    then show ?thesis by simp
  next
    case False
    with 3 have "sublist x (join sep (z # zs))" by simp
    then have "sublist x ((y @ sep) @ join sep (z # zs))" by (rule sublist_in_right)
    then show ?thesis by simp
  qed
qed

lemma message_names_input: "sublist t (invalid_model_message t)"
  unfolding invalid_model_message_def by (rule sublist_appendI)

lemma message_lists_models: "v \<in> set VALID_MODELS \<Longrightarrow> sublist v (invalid_model_message t)"
proof -
  assume "v \<in> set VALID_MODELS"
  then have "sublist v (join '', '' VALID_MODELS)" by (rule join_lists_member)
  then have "sublist v ((''Invalid model name: '' @ t @ ''. Valid models are: '') @
      join '', '' VALID_MODELS)"
    by (rule sublist_in_right)
  then show ?thesis by (simp add: invalid_model_message_def)
qed

lemma getDelegate_invalid:
  "tableName \<notin> set VALID_MODELS \<Longrightarrow>
   getDelegate m tableName = Inl (Error (invalid_model_message tableName))"
  by (simp add: getDelegate_def isValidModel_def)

lemma getDelegate_valid:
  "tableName \<in> set VALID_MODELS \<Longrightarrow>
   getDelegate m tableName = Inr (Delegate (prisma m) (toLowerCase tableName))"
  by (simp add: getDelegate_def isValidModel_def)

lemma getDelegate_resolved:
  "tableName \<in> {''User'', ''Folder'', ''File'', ''Share''} \<Longrightarrow>
   getDelegate m tableName = Inr (Delegate (prisma m) (toLowerCase tableName)) \<and>
   \<not> is_undefined (Delegate (prisma m) (toLowerCase tableName))"
  by (auto simp: getDelegate_def isValidModel_def VALID_MODELS_def toLowerCase_def lower_char_def
      client_properties_def)

lemma getDelegate_FileVersion:
  "getDelegate m ''FileVersion'' = Inr (Delegate (prisma m) ''fileversion'') \<and>
   is_undefined (Delegate (prisma m) ''fileversion'')"
  by (simp add: getDelegate_def isValidModel_def VALID_MODELS_def toLowerCase_def lower_char_def
      client_properties_def)

lemma valid_cases:
  "tableName \<in> set VALID_MODELS \<Longrightarrow>
   tableName \<in> {''User'', ''Folder'', ''File'', ''Share''} \<or> tableName = ''FileVersion''"
  by (auto simp: VALID_MODELS_def)

lemmas table_helper_defs =
  insertRecord_def findRecord_def findFirstRecord_def findManyRecords_def updateRecord_def
  upsertRecord_def deleteRecord_def countRecords_def updateManyRecords_def deleteManyRecords_def

text \<open>
  C1. A table name outside the allow-list makes each of the ten table-name-taking helpers
  throw the error of \<^verbatim>\<open>getDelegate\<close>: the outcome is that error whatever the other
  arguments are, and handing the outcome to any client leaves the data store as it was
  without entering the client. The message contains the rejected name and every name of
  the allow-list. A name of the allow-list passes: \<^verbatim>\<open>isValidModel\<close> holds,
  \<^verbatim>\<open>getDelegate\<close> returns, and no helper throws the error of \<^verbatim>\<open>getDelegate\<close>:
  each makes its call or, for \<^verbatim>\<open>FileVersion\<close>, throws a TypeError.
\<close>

theorem invalid_table_name_rejected_before_client:
  fixes client :: "'cb call \<Rightarrow> 'db \<Rightarrow> (failure + 'r) \<times> 'db"
  shows
    "(tableName \<notin> set VALID_MODELS \<longrightarrow>
        (\<forall>out \<in> {insertRecord m tableName data skipDuplicates,
                   findRecord m tableName query select,
                   findFirstRecord m tableName options,
                   findManyRecords m tableName options,
                   updateRecord m tableName query data,
                   upsertRecord m tableName query dataUpdate dataCreate,
                   deleteRecord m tableName query,
                   countRecords m tableName where_arg,
                   updateManyRecords m tableName where_arg data,
                   deleteManyRecords m tableName where_arg}.
            out = Inl (Error (invalid_model_message tableName)) \<and>
            settle client out db = (Inl (Error (invalid_model_message tableName)), db)) \<and>
        sublist tableName (invalid_model_message tableName) \<and>
        (\<forall>v \<in> set VALID_MODELS. sublist v (invalid_model_message tableName))) \<and>
     (tableName \<in> set VALID_MODELS \<longrightarrow>
        isValidModel tableName \<and>
        getDelegate m tableName = Inr (Delegate (prisma m) (toLowerCase tableName)) \<and>
        (\<forall>out \<in> {insertRecord m tableName data skipDuplicates,
                   findRecord m tableName query select,
                   findFirstRecord m tableName options,
                   findManyRecords m tableName options,
                   updateRecord m tableName query data,
                   upsertRecord m tableName query dataUpdate dataCreate,
                   deleteRecord m tableName query,
                   countRecords m tableName where_arg,
                   updateManyRecords m tableName where_arg data,
                   deleteManyRecords m tableName where_arg :: 'cb outcome}.
            (\<exists>c. out = Inr c) \<or>
            (tableName = ''FileVersion'' \<and> (\<exists>msg. out = Inl (TypeError msg)))))"
proof (intro conjI impI)
  assume invalid: "tableName \<notin> set VALID_MODELS"
  then show "\<forall>out \<in> {insertRecord m tableName data skipDuplicates,
                   findRecord m tableName query select,
                   findFirstRecord m tableName options,
                   findManyRecords m tableName options,
                   updateRecord m tableName query data,
                   upsertRecord m tableName query dataUpdate dataCreate,
                   deleteRecord m tableName query,
                   countRecords m tableName where_arg,
                   updateManyRecords m tableName where_arg data,
                   deleteManyRecords m tableName where_arg}.
            out = Inl (Error (invalid_model_message tableName)) \<and>
            settle client out db = (Inl (Error (invalid_model_message tableName)), db)"
    by (simp add: table_helper_defs getDelegate_invalid settle_def)
  show "sublist tableName (invalid_model_message tableName)"
    by (rule message_names_input)
  show "\<forall>v \<in> set VALID_MODELS. sublist v (invalid_model_message tableName)"
    by (simp add: message_lists_models)
next
  assume valid: "tableName \<in> set VALID_MODELS"
  then show "isValidModel tableName" by (simp add: isValidModel_def)
  from valid show "getDelegate m tableName = Inr (Delegate (prisma m) (toLowerCase tableName))"
    by (rule getDelegate_valid)
  from valid_cases [OF valid]
  show "\<forall>out \<in> {insertRecord m tableName data skipDuplicates,
                   findRecord m tableName query select,
                   findFirstRecord m tableName options,
                   findManyRecords m tableName options,
                   updateRecord m tableName query data,
                   upsertRecord m tableName query dataUpdate dataCreate,
                   deleteRecord m tableName query,
                   countRecords m tableName where_arg,
                   updateManyRecords m tableName where_arg data,
                   deleteManyRecords m tableName where_arg :: 'cb outcome}.
            (\<exists>c. out = Inr c) \<or>
            (tableName = ''FileVersion'' \<and> (\<exists>msg. out = Inl (TypeError msg)))"
  proof
    assume "tableName \<in> {''User'', ''Folder'', ''File'', ''Share''}"
    from getDelegate_resolved [OF this, of m] show ?thesis
      by (simp add: table_helper_defs call_method_def Let_def)
  next
    assume "tableName = ''FileVersion''"
    with getDelegate_FileVersion [of m] show ?thesis
      by (simp add: table_helper_defs call_method_def Let_def)
  qed
qed

theorem invalid_table_name_rejected_before_client_witness:
  "''Users'' \<notin> set VALID_MODELS \<and>
   (deleteManyRecords load_module ''Users'' (JObj []) :: unit outcome) =
     Inl (Error ''Invalid model name: Users. Valid models are: User, Folder, File, FileVersion, Share'') \<and>
   settle (\<lambda>(c :: unit call) (db :: nat). (Inr c, Suc db))
       (insertRecord load_module ''Users'' (JObj [(''name'', JStr ''John'')]) None) 7 =
     (Inl (Error ''Invalid model name: Users. Valid models are: User, Folder, File, FileVersion, Share''), 7) \<and>
   sublist ''Users'' (invalid_model_message ''Users'') \<and>
   sublist ''FileVersion'' (invalid_model_message ''Users'') \<and>
   ''File'' \<in> set VALID_MODELS \<and>
   getDelegate load_module ''File'' = Inr (Delegate 0 ''file'')"
  using invalid_table_name_rejected_before_client
          [where tableName = "''Users''" and m = load_module
             and data = "JObj [(''name'', JStr ''John'')]" and skipDuplicates = None
             and where_arg = "JObj []"
             and client = "\<lambda>(c :: unit call) (db :: nat). (Inr c, Suc db)" and db = 7]
        invalid_table_name_rejected_before_client
          [where tableName = "''File''" and m = load_module
             and client = "\<lambda>(c :: unit call) (db :: nat). (Inr c, Suc db)"]
  by (simp add: VALID_MODELS_def invalid_model_message_def load_module_def getPrismaClient_def
      module_start_def toLowerCase_def lower_char_def settle_def)

section \<open>What the helpers pass on\<close>

lemmas run_defs0 =
  getDelegate_def isValidModel_def VALID_MODELS_def toLowerCase_def lower_char_def
  client_properties_def call_method_def load_module_def getPrismaClient_def module_start_def

text \<open>
  C2, as stated, at \<^verbatim>\<open>{ skip: 5, page: 0, perPage: 10 }\<close>: both \<^verbatim>\<open>page\<close> and
  \<^verbatim>\<open>perPage\<close> are supplied, yet the raw \<^verbatim>\<open>skip\<close> is what is forwarded, not
  \<^verbatim>\<open>(page - 1) * perPage\<close>. And at \<^verbatim>\<open>{ page: 94906268, perPage: 94906267 }\<close>: the
  \<^verbatim>\<open>skip\<close> forwarded is the product as a double, 9007199515875288, one less than
  the product of the two integers.
\<close>

theorem findMany_pagination_counterexample:
  "page_opt (no_options\<lparr>skip_opt := Some 5, page_opt := Some 0, perPage_opt := Some 10\<rparr>) = Some 0 \<and>
   perPage_opt (no_options\<lparr>skip_opt := Some 5, page_opt := Some 0, perPage_opt := Some 10\<rparr>) = Some 10 \<and>
   (findManyRecords load_module ''User''
      (Some (no_options\<lparr>skip_opt := Some 5, page_opt := Some 0, perPage_opt := Some 10\<rparr>))
      :: unit outcome) =
     Inr (DelegateCall (Delegate 0 ''user'') ''findMany'' [(''skip'', JNum 5), (''take'', JNum 10)]) \<and>
   JNum 5 \<noteq> JNum ((0 - 1) * 10) \<and>
   (findManyRecords load_module ''User''
      (Some (no_options\<lparr>page_opt := Some 94906268, perPage_opt := Some 94906267\<rparr>))
      :: unit outcome) =
     Inr (DelegateCall (Delegate 0 ''user'') ''findMany''
           [(''skip'', JNum 9007199515875288), (''take'', JNum 94906267)]) \<and>
   JNum 9007199515875288 \<noteq> JNum ((94906268 - 1) * 94906267)"
proof -
  have "bit_length 9007199515875289 = Suc 53"
    by (rule bit_length_eq) simp_all
  then have rounded: "to_double 9007199515875289 = 9007199515875288"
    by (simp add: to_double_def Let_def)
  have "js_minus 94906268 1 = 94906268 - 1"
    by (rule js_minus_one_safe) simp
  then have big: "js_times (js_minus 94906268 1) 94906267 = 9007199515875288"
    by (simp add: js_times_def rounded)
  show ?thesis
    by (simp add: findManyRecords_def run_defs0 no_options_def calculatedSkip_def
        calculatedTake_def num_truthy_def spread_truthy_def spread_defined_def big)
qed

text \<open>
  C2, amended. For the table names User, Folder, File and Share and integer
  \<^verbatim>\<open>page\<close> and \<^verbatim>\<open>perPage\<close> of magnitude below \<open>2 ^ 53\<close>: when both are supplied
  and both are non-zero, the call to \<^verbatim>\<open>findMany\<close> carries \<^verbatim>\<open>take = perPage\<close> and,
  as \<^verbatim>\<open>skip\<close>, the product \<^verbatim>\<open>(page - 1) * perPage\<close> rounded to a double, whatever
  the raw \<^verbatim>\<open>skip\<close> and \<^verbatim>\<open>take\<close> are; the rounding changes nothing when the
  product is at most \<open>2 ^ 53\<close> in magnitude. With \<^verbatim>\<open>page = 2\<close>, \<^verbatim>\<open>perPage = 10\<close>
  the helper does, for every table name, exactly what it does with \<^verbatim>\<open>skip = 10\<close>,
  \<^verbatim>\<open>take = 10\<close> and the same filter, projection and order. For User, Folder, File and
  Share, when none of the four pagination fields is supplied (or no options at all), the
  call carries neither \<^verbatim>\<open>skip\<close> nor \<^verbatim>\<open>take\<close>.
\<close>

theorem findMany_pagination:
  "(tableName \<in> {''User'', ''Folder'', ''File'', ''Share''} \<and>
    page_opt opts = Some page \<and> perPage_opt opts = Some perPage \<and>
    page \<noteq> 0 \<and> perPage \<noteq> 0 \<and> \<bar>page\<bar> < 2 ^ 53 \<and> \<bar>perPage\<bar> < 2 ^ 53 \<longrightarrow>
      (findManyRecords m tableName (Some opts) :: 'cb outcome) =
        Inr (DelegateCall (Delegate (prisma m) (toLowerCase tableName)) ''findMany''
              (spread_truthy ''where'' (where_opt opts) @
               spread_truthy ''select'' (select_opt opts) @
               spread_truthy ''orderBy'' (orderBy_opt opts) @
               [(''skip'', JNum (to_double ((page - 1) * perPage))), (''take'', JNum perPage)])) \<and>
      (\<bar>(page - 1) * perPage\<bar> \<le> 2 ^ 53 \<longrightarrow>
         to_double ((page - 1) * perPage) = (page - 1) * perPage)) \<and>
   findManyRecords m tableName (Some (opts\<lparr>page_opt := Some 2, perPage_opt := Some 10\<rparr>)) =
     (findManyRecords m tableName
        (Some (opts\<lparr>skip_opt := Some 10, take_opt := Some 10, page_opt := None, perPage_opt := None\<rparr>))
      :: 'cb outcome) \<and>
   (tableName \<in> {''User'', ''Folder'', ''File'', ''Share''} \<and>
    skip_opt opts = None \<and> take_opt opts = None \<and>
    page_opt opts = None \<and> perPage_opt opts = None \<longrightarrow>
      (findManyRecords m tableName (Some opts) :: 'cb outcome) =
        Inr (DelegateCall (Delegate (prisma m) (toLowerCase tableName)) ''findMany''
              (spread_truthy ''where'' (where_opt opts) @
               spread_truthy ''select'' (select_opt opts) @
               spread_truthy ''orderBy'' (orderBy_opt opts)))) \<and>
   (tableName \<in> {''User'', ''Folder'', ''File'', ''Share''} \<longrightarrow>
      (findManyRecords m tableName None :: 'cb outcome) =
        Inr (DelegateCall (Delegate (prisma m) (toLowerCase tableName)) ''findMany'' []))"
proof (intro conjI impI)
  assume a: "tableName \<in> {''User'', ''Folder'', ''File'', ''Share''} \<and>
    page_opt opts = Some page \<and> perPage_opt opts = Some perPage \<and>
    page \<noteq> 0 \<and> perPage \<noteq> 0 \<and> \<bar>page\<bar> < 2 ^ 53 \<and> \<bar>perPage\<bar> < 2 ^ 53"
  then have t: "tableName \<in> {''User'', ''Folder'', ''File'', ''Share''}" by blast
  from a have "js_minus page 1 = page - 1" by (simp add: js_minus_one_safe)
  with a getDelegate_resolved [OF t, of m]
  show "(findManyRecords m tableName (Some opts) :: 'cb outcome) =
        Inr (DelegateCall (Delegate (prisma m) (toLowerCase tableName)) ''findMany''
              (spread_truthy ''where'' (where_opt opts) @
               spread_truthy ''select'' (select_opt opts) @
               spread_truthy ''orderBy'' (orderBy_opt opts) @
               [(''skip'', JNum (to_double ((page - 1) * perPage))), (''take'', JNum perPage)]))"
    by (simp add: findManyRecords_def call_method_def calculatedSkip_def calculatedTake_def
        num_truthy_def spread_defined_def js_times_def Let_def)
  assume "\<bar>(page - 1) * perPage\<bar> \<le> 2 ^ 53"
  then show "to_double ((page - 1) * perPage) = (page - 1) * perPage" by (rule to_double_exact)
next
  show "findManyRecords m tableName (Some (opts\<lparr>page_opt := Some 2, perPage_opt := Some 10\<rparr>)) =
     (findManyRecords m tableName
        (Some (opts\<lparr>skip_opt := Some 10, take_opt := Some 10, page_opt := None, perPage_opt := None\<rparr>))
      :: 'cb outcome)"
    by (simp add: findManyRecords_def calculatedSkip_def calculatedTake_def num_truthy_def
        page_two_of_ten Let_def split: sum.splits)
next
  assume a: "tableName \<in> {''User'', ''Folder'', ''File'', ''Share''} \<and>
    skip_opt opts = None \<and> take_opt opts = None \<and>
    page_opt opts = None \<and> perPage_opt opts = None"
  then have t: "tableName \<in> {''User'', ''Folder'', ''File'', ''Share''}" by blast
  from a getDelegate_resolved [OF t, of m]
  show "(findManyRecords m tableName (Some opts) :: 'cb outcome) =
        Inr (DelegateCall (Delegate (prisma m) (toLowerCase tableName)) ''findMany''
              (spread_truthy ''where'' (where_opt opts) @
               spread_truthy ''select'' (select_opt opts) @
               spread_truthy ''orderBy'' (orderBy_opt opts)))"
    by (simp add: findManyRecords_def call_method_def calculatedSkip_def calculatedTake_def
        num_truthy_def spread_defined_def Let_def)
next
  assume t: "tableName \<in> {''User'', ''Folder'', ''File'', ''Share''}"
  from getDelegate_resolved [OF t, of m]
  show "(findManyRecords m tableName None :: 'cb outcome) =
        Inr (DelegateCall (Delegate (prisma m) (toLowerCase tableName)) ''findMany'' [])"
    by (simp add: findManyRecords_def call_method_def calculatedSkip_def calculatedTake_def
        num_truthy_def spread_defined_def spread_truthy_def no_options_def Let_def)
qed

theorem findMany_pagination_witness:
  "''File'' \<in> {''User'', ''Folder'', ''File'', ''Share''} \<and>
   \<bar>94906268 :: int\<bar> < 2 ^ 53 \<and> \<bar>94906267 :: int\<bar> < 2 ^ 53 \<and>
   (findManyRecords load_module ''File''
      (Some (no_options\<lparr>where_opt := JObj [(''isDeleted'', JBool False)], skip_opt := Some 3,
                         take_opt := Some 4, page_opt := Some 2, perPage_opt := Some 10\<rparr>))
      :: unit outcome) =
     Inr (DelegateCall (Delegate 0 ''file'') ''findMany''
            [(''where'', JObj [(''isDeleted'', JBool False)]), (''skip'', JNum 10),
             (''take'', JNum 10)]) \<and>
   (findManyRecords load_module ''File''
      (Some (no_options\<lparr>page_opt := Some 94906268, perPage_opt := Some 94906267\<rparr>))
      :: unit outcome) =
     Inr (DelegateCall (Delegate 0 ''file'') ''findMany''
            [(''skip'', JNum (to_double ((94906268 - 1) * 94906267))), (''take'', JNum 94906267)]) \<and>
   (findManyRecords load_module ''File''
      (Some (no_options\<lparr>where_opt := JObj [(''isDeleted'', JBool False)]\<rparr>)) :: unit outcome) =
     Inr (DelegateCall (Delegate 0 ''file'') ''findMany''
            [(''where'', JObj [(''isDeleted'', JBool False)])]) \<and>
   (findManyRecords load_module ''File'' None :: unit outcome) =
     Inr (DelegateCall (Delegate 0 ''file'') ''findMany'' [])"
proof -
  have p0: "prisma load_module = 0"
    by (simp add: load_module_def getPrismaClient_def module_start_def)
  have key: "toLowerCase ''File'' = ''file''" by (simp add: toLowerCase_def lower_char_def)
  have ten: "to_double ((2 - 1) * 10) = 10" by (simp add: to_double_exact)
  note th = findMany_pagination [where tableName = "''File''" and m = load_module, where ?'cb = unit]
  from th [where page = 2 and perPage = 10
             and opts = "no_options\<lparr>where_opt := JObj [(''isDeleted'', JBool False)],
                          skip_opt := Some 3, take_opt := Some 4, page_opt := Some 2,
                          perPage_opt := Some 10\<rparr>"]
  have one: "(findManyRecords load_module ''File''
      (Some (no_options\<lparr>where_opt := JObj [(''isDeleted'', JBool False)], skip_opt := Some 3,
                         take_opt := Some 4, page_opt := Some 2, perPage_opt := Some 10\<rparr>))
      :: unit outcome) =
     Inr (DelegateCall (Delegate 0 ''file'') ''findMany''
            [(''where'', JObj [(''isDeleted'', JBool False)]), (''skip'', JNum 10),
             (''take'', JNum 10)])"
    by (simp add: p0 key ten no_options_def spread_truthy_def)
  from th [where page = 94906268 and perPage = 94906267
             and opts = "no_options\<lparr>page_opt := Some 94906268, perPage_opt := Some 94906267\<rparr>"]
  have two: "(findManyRecords load_module ''File''
      (Some (no_options\<lparr>page_opt := Some 94906268, perPage_opt := Some 94906267\<rparr>))
      :: unit outcome) =
     Inr (DelegateCall (Delegate 0 ''file'') ''findMany''
            [(''skip'', JNum (to_double ((94906268 - 1) * 94906267))), (''take'', JNum 94906267)])"
    by (simp add: p0 key no_options_def spread_truthy_def)
  from th [where page = 1 and perPage = 1
             and opts = "no_options\<lparr>where_opt := JObj [(''isDeleted'', JBool False)]\<rparr>"]
  have three: "(findManyRecords load_module ''File''
      (Some (no_options\<lparr>where_opt := JObj [(''isDeleted'', JBool False)]\<rparr>)) :: unit outcome) =
     Inr (DelegateCall (Delegate 0 ''file'') ''findMany''
            [(''where'', JObj [(''isDeleted'', JBool False)])])"
    and four: "(findManyRecords load_module ''File'' None :: unit outcome) =
     Inr (DelegateCall (Delegate 0 ''file'') ''findMany'' [])"
    by (simp_all add: p0 key no_options_def spread_truthy_def)
  from one two three four show ?thesis by simp
qed

text \<open>
  What \<^verbatim>\<open>insertRecord\<close> does where the delegate is found, that is for User, Folder,
  File and Share: \<^verbatim>\<open>create\<close> with \<^verbatim>\<open>{ data }\<close> for a value that is not an array,
  \<^verbatim>\<open>createMany\<close> with \<^verbatim>\<open>{ data, skipDuplicates }\<close> for an array, the flag being
  \<^verbatim>\<open>true\<close> when the caller omits it and the caller's value otherwise.
\<close>

lemma insert_dispatch_resolved:
  "tableName \<in> {''User'', ''Folder'', ''File'', ''Share''} \<Longrightarrow>
     (\<not> isArray rec \<longrightarrow>
        (insertRecord m tableName rec skipDuplicates :: 'cb outcome) =
          Inr (DelegateCall (Delegate (prisma m) (toLowerCase tableName)) ''create''
                [(''data'', rec)])) \<and>
     (insertRecord m tableName (JArr recs) None :: 'cb outcome) =
       Inr (DelegateCall (Delegate (prisma m) (toLowerCase tableName)) ''createMany''
             [(''data'', JArr recs), (''skipDuplicates'', JBool True)]) \<and>
     (insertRecord m tableName (JArr recs) (Some flag) :: 'cb outcome) =
       Inr (DelegateCall (Delegate (prisma m) (toLowerCase tableName)) ''createMany''
             [(''data'', JArr recs), (''skipDuplicates'', JBool flag)])"
  using getDelegate_resolved [of tableName m]
  by (simp add: insertRecord_def call_method_def)

text \<open>
  C3 fails at the valid table name \<^verbatim>\<open>FileVersion\<close>: \<^verbatim>\<open>getDelegate\<close> looks for the
  property \<^verbatim>\<open>fileversion\<close>, the client's delegate is \<^verbatim>\<open>fileVersion\<close>, so the value
  returned is \<^verbatim>\<open>undefined\<close> and \<^verbatim>\<open>insertRecord\<close> throws a TypeError on reading
  \<^verbatim>\<open>create\<close> or \<^verbatim>\<open>createMany\<close> from it. Neither operation of the delegate is
  invoked, for a single record or for a list.
\<close>

theorem insert_FileVersion_TypeError:
  "''FileVersion'' \<in> set VALID_MODELS \<and>
   (insertRecord load_module ''FileVersion''
      (JObj [(''fileId'', JStr ''f1''), (''version'', JNum 2)]) None :: unit outcome) =
     Inl (TypeError ''Cannot read properties of undefined (reading 'create')'') \<and>
   (insertRecord load_module ''FileVersion''
      (JArr [JObj [(''fileId'', JStr ''f1''), (''version'', JNum 2)]]) None :: unit outcome) =
     Inl (TypeError ''Cannot read properties of undefined (reading 'createMany')'')"
  by (simp add: insertRecord_def run_defs0)

text \<open>
  C5. \<^verbatim>\<open>executeRawQuery\<close> never throws the invalid-model error, whatever the query
  text, and what it hands to the client is \<^verbatim>\<open>$queryRawUnsafe\<close> with the query string
  and the parameters as given: the result is whatever the client answers to that call.
\<close>

theorem raw_query_passthrough:
  "(executeRawQuery m query params :: 'cb outcome) =
     Inr (QueryRawUnsafe (prisma m) query params) \<and>
   (\<forall>name. executeRawQuery m query params \<noteq> (Inl (Error (invalid_model_message name)) :: 'cb outcome)) \<and>
   settle client (executeRawQuery m query params) db =
     client (QueryRawUnsafe (prisma m) query params) db"
  by (simp add: executeRawQuery_def settle_def)

text \<open>
  C9. \<^verbatim>\<open>findFirstRecord\<close> does not look at \<^verbatim>\<open>skip\<close>, \<^verbatim>\<open>take\<close>, \<^verbatim>\<open>page\<close> or
  \<^verbatim>\<open>perPage\<close>: changing them changes nothing, two option objects that agree on
  \<^verbatim>\<open>where\<close>, \<^verbatim>\<open>select\<close> and \<^verbatim>\<open>orderBy\<close> give the same outcome and hence the
  same answer from any client, and for a valid table name what is called is
  \<^verbatim>\<open>findFirst\<close> on the value \<^verbatim>\<open>getDelegate\<close> returned, with the filter, the
  projection and the ordering only; for User, Folder, File and Share that is a call on
  the delegate.
\<close>

theorem findFirst_ignores_pagination:
  "findFirstRecord m tableName
      (Some (opts\<lparr>skip_opt := s, take_opt := t, page_opt := p, perPage_opt := pp\<rparr>)) =
     (findFirstRecord m tableName (Some opts) :: 'cb outcome) \<and>
   (where_opt a = where_opt b \<and> select_opt a = select_opt b \<and> orderBy_opt a = orderBy_opt b \<longrightarrow>
      findFirstRecord m tableName (Some a) = (findFirstRecord m tableName (Some b) :: 'cb outcome) \<and>
      settle client (findFirstRecord m tableName (Some a)) db =
        settle client (findFirstRecord m tableName (Some b) :: 'cb outcome) db) \<and>
   (tableName \<in> set VALID_MODELS \<longrightarrow>
      (findFirstRecord m tableName (Some opts) :: 'cb outcome) =
        call_method (Delegate (prisma m) (toLowerCase tableName)) ''findFirst''
          (spread_truthy ''where'' (where_opt opts) @
           spread_truthy ''select'' (select_opt opts) @
           spread_truthy ''orderBy'' (orderBy_opt opts))) \<and>
   (tableName \<in> {''User'', ''Folder'', ''File'', ''Share''} \<longrightarrow>
      (findFirstRecord m tableName (Some opts) :: 'cb outcome) =
        Inr (DelegateCall (Delegate (prisma m) (toLowerCase tableName)) ''findFirst''
              (spread_truthy ''where'' (where_opt opts) @
               spread_truthy ''select'' (select_opt opts) @
               spread_truthy ''orderBy'' (orderBy_opt opts))))"
proof (intro conjI impI)
  show "findFirstRecord m tableName
      (Some (opts\<lparr>skip_opt := s, take_opt := t, page_opt := p, perPage_opt := pp\<rparr>)) =
     (findFirstRecord m tableName (Some opts) :: 'cb outcome)"
    by (simp add: findFirstRecord_def Let_def split: sum.splits)
next
  assume "where_opt a = where_opt b \<and> select_opt a = select_opt b \<and> orderBy_opt a = orderBy_opt b"
  then show eq: "findFirstRecord m tableName (Some a) =
      (findFirstRecord m tableName (Some b) :: 'cb outcome)"
    by (simp add: findFirstRecord_def Let_def split: sum.splits)
  then show "settle client (findFirstRecord m tableName (Some a)) db =
        settle client (findFirstRecord m tableName (Some b) :: 'cb outcome) db"
    by simp
next
  assume "tableName \<in> set VALID_MODELS"
  then show "(findFirstRecord m tableName (Some opts) :: 'cb outcome) =
        call_method (Delegate (prisma m) (toLowerCase tableName)) ''findFirst''
          (spread_truthy ''where'' (where_opt opts) @
           spread_truthy ''select'' (select_opt opts) @
           spread_truthy ''orderBy'' (orderBy_opt opts))"
    by (simp add: findFirstRecord_def getDelegate_valid Let_def)
next
  assume "tableName \<in> {''User'', ''Folder'', ''File'', ''Share''}"
  from getDelegate_resolved [OF this, of m]
  show "(findFirstRecord m tableName (Some opts) :: 'cb outcome) =
        Inr (DelegateCall (Delegate (prisma m) (toLowerCase tableName)) ''findFirst''
              (spread_truthy ''where'' (where_opt opts) @
               spread_truthy ''select'' (select_opt opts) @
               spread_truthy ''orderBy'' (orderBy_opt opts)))"
    by (simp add: findFirstRecord_def call_method_def Let_def)
qed

theorem findFirst_ignores_pagination_witness:
  "where_opt (no_options\<lparr>orderBy_opt := JObj [(''createdAt'', JStr ''asc'')], skip_opt := Some 20,
                         take_opt := Some 5\<rparr>) =
     where_opt (no_options\<lparr>orderBy_opt := JObj [(''createdAt'', JStr ''asc'')], page_opt := Some 3,
                         perPage_opt := Some 10\<rparr>) \<and>
   ''Share'' \<in> set VALID_MODELS \<and>
   (findFirstRecord load_module ''Share''
      (Some (no_options\<lparr>orderBy_opt := JObj [(''createdAt'', JStr ''asc'')], skip_opt := Some 20,
                         take_opt := Some 5\<rparr>)) :: unit outcome) =
     findFirstRecord load_module ''Share''
      (Some (no_options\<lparr>orderBy_opt := JObj [(''createdAt'', JStr ''asc'')], page_opt := Some 3,
                         perPage_opt := Some 10\<rparr>)) \<and>
   (findFirstRecord load_module ''Share''
      (Some (no_options\<lparr>orderBy_opt := JObj [(''createdAt'', JStr ''asc'')], skip_opt := Some 20,
                         take_opt := Some 5\<rparr>)) :: unit outcome) =
     Inr (DelegateCall (Delegate 0 ''share'') ''findFirst''
           [(''orderBy'', JObj [(''createdAt'', JStr ''asc'')])])"
  using findFirst_ignores_pagination
          [where tableName = "''Share''" and m = load_module
             and a = "no_options\<lparr>orderBy_opt := JObj [(''createdAt'', JStr ''asc'')],
                        skip_opt := Some 20, take_opt := Some 5\<rparr>"
             and b = "no_options\<lparr>orderBy_opt := JObj [(''createdAt'', JStr ''asc'')],
                        page_opt := Some 3, perPage_opt := Some 10\<rparr>"
             and opts = "no_options\<lparr>orderBy_opt := JObj [(''createdAt'', JStr ''asc'')],
                        skip_opt := Some 20, take_opt := Some 5\<rparr>"
             and s = None and t = None and p = None and pp = None
             and client = "\<lambda>(c :: unit call) (db :: unit). (Inr (), db)" and db = "()"]
  by (auto simp: VALID_MODELS_def no_options_def spread_truthy_def load_module_def
      getPrismaClient_def module_start_def toLowerCase_def lower_char_def call_method_def
      client_properties_def)

section \<open>Lifecycle of the singleton\<close>

text \<open>
  C6, as stated, on the loaded module. One call of \<^verbatim>\<open>disconnectPrismaClient\<close>
  disconnects the client once. Two calls, the second started while the first is suspended
  on \<^verbatim>\<open>$disconnect()\<close>, both find the singleton set and disconnect the client twice.
  And a call whose \<^verbatim>\<open>$disconnect()\<close> rejects leaves the singleton set, so that a
  second call disconnects the client again.
\<close>

theorem disconnect_overlap_counterexample:
  "trace (fst (run_schedule [DisconnectStart, DisconnectResume None] (load_module, 0))) =
     [Created 0 [LogError, LogWarn] Colorless, Disconnected 0] \<and>
   trace (fst (run_schedule
                 [DisconnectStart, DisconnectStart, DisconnectResume None, DisconnectResume None]
                 (load_module, 0))) =
     [Created 0 [LogError, LogWarn] Colorless, Disconnected 0, Disconnected 0] \<and>
   disconnectPrismaClient (Some (ClientError ''engine'')) load_module =
     (Some (ClientError ''engine''),
      \<lparr>prismaInstance = Some 0, fresh = 1,
        trace = [Created 0 [LogError, LogWarn] Colorless, Disconnected 0], prisma = 0\<rparr>) \<and>
   trace (snd (disconnectPrismaClient None
                 (snd (disconnectPrismaClient (Some (ClientError ''engine'')) load_module)))) =
     [Created 0 [LogError, LogWarn] Colorless, Disconnected 0, Disconnected 0]"
  by (simp add: run_schedule_def disconnect_start_def disconnect_resume_def
      disconnectPrismaClient_def load_module_def getPrismaClient_def module_start_def)

lemma disconnect_resolved:
  "disconnectPrismaClient None g =
     (None, case prismaInstance g of
              Some c \<Rightarrow> g\<lparr>trace := trace g @ [Disconnected c], prismaInstance := None\<rparr>
            | None \<Rightarrow> g)"
  by (simp add: disconnectPrismaClient_def disconnect_start_def disconnect_resume_def
      split: option.splits)

lemma disconnect_of_null:
  "prismaInstance g = None \<Longrightarrow> disconnectPrismaClient settled g = (None, g)"
  by (simp add: disconnectPrismaClient_def disconnect_start_def)

text \<open>
  C6, amended. When calls of \<^verbatim>\<open>disconnectPrismaClient\<close> do not overlap, each being
  complete before the next starts, and \<^verbatim>\<open>$disconnect()\<close> resolves, the operation is
  idempotent: the call resolves and leaves the singleton variable \<^verbatim>\<open>null\<close>; a call
  that finds the variable \<^verbatim>\<open>null\<close> does nothing; when the singleton holds a client,
  that client is disconnected once, also after a second call; and two such calls in a row
  leave the state of one.
\<close>

theorem disconnect_idempotent:
  "fst (disconnectPrismaClient None g) = None \<and>
   prismaInstance (snd (disconnectPrismaClient None g)) = None \<and>
   disconnectPrismaClient settled (snd (disconnectPrismaClient None g)) =
     (None, snd (disconnectPrismaClient None g)) \<and>
   (prismaInstance g = Some c \<longrightarrow>
      snd (disconnectPrismaClient None g) =
        g\<lparr>trace := trace g @ [Disconnected c], prismaInstance := None\<rparr> \<and>
      length (filter (\<lambda>e. e = Disconnected c)
                (trace (snd (disconnectPrismaClient None (snd (disconnectPrismaClient None g)))))) =
        Suc (length (filter (\<lambda>e. e = Disconnected c) (trace g)))) \<and>
   (prismaInstance g = None \<longrightarrow> disconnectPrismaClient settled g = (None, g)) \<and>
   run_schedule [DisconnectStart, DisconnectResume None] (m, 0) =
     (snd (disconnectPrismaClient None m), 0) \<and>
   run_schedule [DisconnectStart, DisconnectResume None, DisconnectStart, DisconnectResume None]
       (m, 0) =
     run_schedule [DisconnectStart, DisconnectResume None] (m, 0)"
proof -
  have null: "prismaInstance (snd (disconnectPrismaClient None h)) = None"
    for h :: "'b globals_scheme"
    by (simp add: disconnect_resolved split: option.splits)
  have again: "disconnectPrismaClient s (snd (disconnectPrismaClient None h)) =
      (None, snd (disconnectPrismaClient None h))" for s and h :: "'b globals_scheme"
    using null by (rule disconnect_of_null)
  have once: "run_schedule [DisconnectStart, DisconnectResume None] (n, 0) =
      (snd (disconnectPrismaClient None n), 0)" for n
    by (simp add: run_schedule_def disconnectPrismaClient_def disconnect_start_def
        disconnect_resume_def split: option.splits)
  have "run_schedule [DisconnectStart, DisconnectResume None, DisconnectStart, DisconnectResume None]
       (m, 0) =
     run_schedule [DisconnectStart, DisconnectResume None]
       (run_schedule [DisconnectStart, DisconnectResume None] (m, 0))"
    by (simp add: run_schedule_def)
  also have "\<dots> = (snd (disconnectPrismaClient None (snd (disconnectPrismaClient None m))), 0)"
    by (simp only: once)
  also have "\<dots> = (snd (disconnectPrismaClient None m), 0)"
    by (simp add: again)
  finally have twice: "run_schedule
       [DisconnectStart, DisconnectResume None, DisconnectStart, DisconnectResume None] (m, 0) =
     run_schedule [DisconnectStart, DisconnectResume None] (m, 0)"
    by (simp only: once)
  have counted: "prismaInstance g = Some c \<longrightarrow>
      snd (disconnectPrismaClient None g) =
        g\<lparr>trace := trace g @ [Disconnected c], prismaInstance := None\<rparr> \<and>
      length (filter (\<lambda>e. e = Disconnected c)
                (trace (snd (disconnectPrismaClient None (snd (disconnectPrismaClient None g)))))) =
        Suc (length (filter (\<lambda>e. e = Disconnected c) (trace g)))"
    by (simp add: again) (simp add: disconnect_resolved)
  from null [of g] again [of settled g] counted once [of m] twice show ?thesis
    by (simp add: disconnect_resolved disconnect_of_null)
qed

theorem disconnect_idempotent_witness:
  "prismaInstance load_module = Some 0 \<and>
   disconnectPrismaClient None load_module =
     (None, \<lparr>prismaInstance = None, fresh = 1,
             trace = [Created 0 [LogError, LogWarn] Colorless, Disconnected 0], prisma = 0\<rparr>) \<and>
   disconnectPrismaClient None (snd (disconnectPrismaClient None load_module)) =
     (None, snd (disconnectPrismaClient None load_module)) \<and>
   prismaInstance (snd (disconnectPrismaClient None load_module)) = None \<and>
   run_schedule [DisconnectStart, DisconnectResume None, DisconnectStart, DisconnectResume None]
       (load_module, 0) =
     (\<lparr>prismaInstance = None, fresh = 1,
        trace = [Created 0 [LogError, LogWarn] Colorless, Disconnected 0], prisma = 0\<rparr>, 0)"
  using disconnect_idempotent [where g = load_module and c = 0 and m = load_module
      and settled = None]
  by (simp add: load_module_def getPrismaClient_def module_start_def disconnectPrismaClient_def
      disconnect_start_def disconnect_resume_def run_schedule_def)







section \<open>The helpers on a client and its store\<close>

lemma settle_update:
  "tableName \<in> {''User'', ''Folder'', ''File'', ''Share''} \<Longrightarrow>
   settle (orm ext) (updateRecord m tableName query data) db =
     (case delegate_update query data (db (toLowerCase tableName)) of
        (res, rows') \<Rightarrow> (res, db(toLowerCase tableName := rows')))"
  using getDelegate_resolved [of tableName m]
  by (simp add: settle_def updateRecord_def call_method_def on_delegate_def delegate_method_def
      arg_def)


lemma find_no_match: "(\<forall>r \<in> set rows. \<not> P r) \<Longrightarrow> find P rows = None"
  by (simp add: find_None_iff)

lemmas run_defs =
  settle_def run_defs0 on_delegate_def delegate_method_def arg_def delegate_upsert_def
  delegate_update_def delegate_create_def matches_def assign_def js_or_def users_only_def
  inert_def Let_def

text \<open>
  What \<^verbatim>\<open>updateRecord\<close> does where the delegate is found, that is for User, Folder,
  File and Share: when no stored record matches the filter it fails with the not-found
  error and the store is what it was; when a record matches, the result is that record
  with the given fields set, and the store holds it in place of the old one.
\<close>

lemma update_one_resolved:
  "tableName \<in> {''User'', ''Folder'', ''File'', ''Share''} \<longrightarrow>
     ((\<forall>r \<in> set (db (toLowerCase tableName)). \<not> matches query r) \<longrightarrow>
        settle (orm ext) (updateRecord m tableName query data) db = (Inl NotFound, db)) \<and>
     (\<forall>r. find (matches query) (db (toLowerCase tableName)) = Some r \<longrightarrow>
        settle (orm ext) (updateRecord m tableName query data) db =
          (Inr (JObj (assign r (fields_of data))),
           db(toLowerCase tableName :=
                replace_first (matches query) (assign r (fields_of data))
                  (db (toLowerCase tableName)))))"
proof (intro impI conjI allI)
  assume t: "tableName \<in> {''User'', ''Folder'', ''File'', ''Share''}"
  assume none: "\<forall>r \<in> set (db (toLowerCase tableName)). \<not> matches query r"
  then have "find (matches query) (db (toLowerCase tableName)) = None" by (rule find_no_match)
  with t show "settle (orm ext) (updateRecord m tableName query data) db = (Inl NotFound, db)"
    by (simp add: settle_update delegate_update_def)
next
  fix r
  assume t: "tableName \<in> {''User'', ''Folder'', ''File'', ''Share''}"
  assume "find (matches query) (db (toLowerCase tableName)) = Some r"
  with t show "settle (orm ext) (updateRecord m tableName query data) db =
          (Inr (JObj (assign r (fields_of data))),
           db(toLowerCase tableName :=
                replace_first (matches query) (assign r (fields_of data))
                  (db (toLowerCase tableName))))"
    by (simp add: settle_update delegate_update_def Let_def)
qed

lemma update_one_resolved_example:
  "settle (orm inert)
     (updateRecord load_module ''User'' (JObj [(''id'', JNum 2)]) (JObj [(''name'', JStr ''b'')]))
     (users_only [[(''id'', JNum 1), (''name'', JStr ''a'')]]) =
     (Inl NotFound, users_only [[(''id'', JNum 1), (''name'', JStr ''a'')]]) \<and>
   fst (settle (orm inert)
     (updateRecord load_module ''User'' (JObj [(''id'', JNum 1)]) (JObj [(''name'', JStr ''b'')]))
     (users_only [[(''id'', JNum 1), (''name'', JStr ''a'')]])) =
     Inr (JObj [(''id'', JNum 1), (''name'', JStr ''b'')])"
  by (simp add: updateRecord_def run_defs)

text \<open>
  C8 fails at the valid table name \<^verbatim>\<open>FileVersion\<close>: with a filter that matches no
  record, \<^verbatim>\<open>updateRecord\<close> throws a TypeError on reading \<^verbatim>\<open>update\<close> from the
  \<^verbatim>\<open>undefined\<close> that \<^verbatim>\<open>getDelegate\<close> returned. The store is unchanged, but the
  error is not the not-found error of the delegate, which is never called.
\<close>

theorem update_FileVersion_TypeError:
  "''FileVersion'' \<in> set VALID_MODELS \<and>
   filter (matches (JObj [(''id'', JStr ''v1'')])) (users_only [] ''fileVersion'') = [] \<and>
   (updateRecord load_module ''FileVersion'' (JObj [(''id'', JStr ''v1'')])
      (JObj [(''size'', JNum 10)]) :: unit_of_work outcome) =
     Inl (TypeError ''Cannot read properties of undefined (reading 'update')'') \<and>
   settle (orm inert)
     (updateRecord load_module ''FileVersion'' (JObj [(''id'', JStr ''v1'')])
        (JObj [(''size'', JNum 10)]))
     (users_only []) =
     (Inl (TypeError ''Cannot read properties of undefined (reading 'update')''), users_only []) \<and>
   TypeError ''Cannot read properties of undefined (reading 'update')'' \<noteq> NotFound"
  by (simp add: updateRecord_def run_defs)









lemma in_sequence_stops:
  "in_sequence ext pre db = (Inr vs, db1) \<Longrightarrow>
   on_delegate ext key method args db1 = (Inl e, db2) \<Longrightarrow>
   in_sequence ext (pre @ TxOp key method args # post) db = (Inl e, db2)"
proof (induction pre arbitrary: db vs)
  case Nil
  then show ?case by simp
next
  case (Cons x pre)
  obtain k mth a where x: "x = TxOp k mth a" by (cases x)
  from Cons.prems(1) x obtain v db' vs' where
    step: "on_delegate ext k mth a db = (Inr v, db')" and
    rest: "in_sequence ext pre db' = (Inr vs', db1)"
    by (auto split: prod.splits sum.splits)
  from Cons.IH [OF rest Cons.prems(2)] step x show ?case by simp
qed

text \<open>
  C7. \<^verbatim>\<open>executeTransaction\<close> hands the callback to the client's transaction
  primitive and returns what that returns. A unit of work that fails leaves the store as
  it was before the unit and its error is the caller's result; in a sequence of operations
  where some have succeeded and the next fails, that is the error of the failing
  operation and the effects of the earlier ones are gone. A unit that succeeds yields its
  result and its effects.
\<close>

theorem transaction_all_or_nothing:
  "settle (orm ext) (executeTransaction m callback) db =
     (case callback db of (Inl e, db') \<Rightarrow> (Inl e, db) | (Inr r, db') \<Rightarrow> (Inr r, db')) \<and>
   (in_sequence ext pre db = (Inr vs, db1) \<and> on_delegate ext key mth args db1 = (Inl e, db2) \<longrightarrow>
      settle (orm ext)
        (executeTransaction m (sequence_unit ext (pre @ TxOp key mth args # post))) db =
        (Inl e, db)) \<and>
   (in_sequence ext ops db = (Inr rs, db3) \<longrightarrow>
      settle (orm ext) (executeTransaction m (sequence_unit ext ops)) db = (Inr (JArr rs), db3))"
  by (auto simp: settle_def executeTransaction_def client_transaction_def sequence_unit_def
      in_sequence_stops split: prod.splits sum.splits)

theorem transaction_all_or_nothing_witness:
  "in_sequence inert [TxOp ''user'' ''create'' [(''data'', JObj [(''id'', JNum 1)])]] (users_only []) =
     (Inr [JObj [(''id'', JNum 1)]], users_only [[(''id'', JNum 1)]]) \<and>
   on_delegate inert ''user'' ''update''
       [(''where'', JObj [(''id'', JNum 2)]), (''data'', JObj [(''name'', JStr ''b'')])]
       (users_only [[(''id'', JNum 1)]]) =
     (Inl NotFound, users_only [[(''id'', JNum 1)]]) \<and>
   settle (orm inert)
     (executeTransaction load_module
        (sequence_unit inert
           ([TxOp ''user'' ''create'' [(''data'', JObj [(''id'', JNum 1)])]] @
            TxOp ''user'' ''update''
              [(''where'', JObj [(''id'', JNum 2)]), (''data'', JObj [(''name'', JStr ''b'')])] #
            [])))
     (users_only []) =
     (Inl NotFound, users_only []) \<and>
   users_only [] ''user'' = [] \<and>
   settle (orm inert)
     (executeTransaction load_module
        (sequence_unit inert [TxOp ''user'' ''create'' [(''data'', JObj [(''id'', JNum 1)])]]))
     (users_only []) =
     (Inr (JArr [JObj [(''id'', JNum 1)]]), users_only [[(''id'', JNum 1)]])"
proof -
  let ?A = "TxOp ''user'' ''create'' [(''data'', JObj [(''id'', JNum 1)])]"
  have a: "in_sequence inert [?A] (users_only []) =
     (Inr [JObj [(''id'', JNum 1)]], users_only [[(''id'', JNum 1)]])"
    by (simp add: on_delegate_def delegate_method_def delegate_create_def arg_def users_only_def
        client_properties_def)
  have b: "on_delegate inert ''user'' ''update''
       [(''where'', JObj [(''id'', JNum 2)]), (''data'', JObj [(''name'', JStr ''b'')])]
       (users_only [[(''id'', JNum 1)]]) =
     (Inl NotFound, users_only [[(''id'', JNum 1)]])"
    by (simp add: on_delegate_def delegate_method_def delegate_update_def arg_def users_only_def
        matches_def client_properties_def)
  note th = transaction_all_or_nothing [where ext = inert and m = load_module
      and db = "users_only []" and pre = "[?A]" and vs = "[JObj [(''id'', JNum 1)]]"
      and ?db1.0 = "users_only [[(''id'', JNum 1)]]" and key = "''user''" and mth = "''update''"
      and args = "[(''where'', JObj [(''id'', JNum 2)]), (''data'', JObj [(''name'', JStr ''b'')])]"
      and e = NotFound and ?db2.0 = "users_only [[(''id'', JNum 1)]]" and post = "[]"
      and ops = "[?A]" and rs = "[JObj [(''id'', JNum 1)]]"
      and ?db3.0 = "users_only [[(''id'', JNum 1)]]"]
  from th a b have
    "settle (orm inert)
     (executeTransaction load_module
        (sequence_unit inert
           ([?A] @
            TxOp ''user'' ''update''
              [(''where'', JObj [(''id'', JNum 2)]), (''data'', JObj [(''name'', JStr ''b'')])] #
            [])))
     (users_only []) =
     (Inl NotFound, users_only [])"
    and "settle (orm inert) (executeTransaction load_module (sequence_unit inert [?A]))
     (users_only []) =
     (Inr (JArr [JObj [(''id'', JNum 1)]]), users_only [[(''id'', JNum 1)]])"
    by blast+
  with a b show ?thesis by (simp add: users_only_def)
qed

end
